theory Spec2Isabelle
  imports Complex_Main "HOL-Library.AList" "HOL-Library.Sublist"
begin

section \<open>The Azure Mistral AI chat wrapper (\<open>chat_models/azure.py\<close>)\<close>

text \<open>
  A shallow embedding of class \<open>AzureChatMistralAI\<close>. The object is a record, the
  in-place mutation done by \<open>validate_environment\<close> is explicit state passing, and
  every \<open>raise\<close> is a value of a sum type that also carries the state the object is
  in when the exception leaves the method.
\<close>

subsection \<open>Python values\<close>

text \<open>
  A Python \<open>float\<close> is a finite number, an infinity or NaN. Only comparisons with the
  integers \<open>0\<close> and \<open>1\<close> are made on it, and those are exact, so a finite float is
  modelled by the real number it denotes.
\<close>

datatype pyfloat = Finite real | PosInf | NegInf | NaN

text \<open>\<open>i <= x\<close> and \<open>x <= i\<close> for an \<open>int\<close> \<open>i\<close> and a \<open>float\<close> \<open>x\<close>; every
  comparison with NaN is false.\<close>

fun int_le_float :: "int \<Rightarrow> pyfloat \<Rightarrow> bool" where
  "int_le_float i (Finite r) = (real_of_int i \<le> r)"
| "int_le_float i PosInf = True"
| "int_le_float i NegInf = False"
| "int_le_float i NaN = False"

fun float_le_int :: "pyfloat \<Rightarrow> int \<Rightarrow> bool" where
  "float_le_int (Finite r) i = (r \<le> real_of_int i)"
| "float_le_int PosInf i = False"
| "float_le_int NegInf i = True"
| "float_le_int NaN i = False"

text \<open>The values that occur in the parameter dictionaries.\<close>

datatype pyval = PNone | PStr string | PFloat pyfloat | PInt int

fun py_opt :: "('a \<Rightarrow> pyval) \<Rightarrow> 'a option \<Rightarrow> pyval" where
  "py_opt f None = PNone"
| "py_opt f (Some x) = f x"

text \<open>
  A \<open>dict\<close> keeps its keys in insertion order, and storing under a key that is already
  there replaces the value and leaves the key where it is: an association list with
  \<open>AList.update\<close>. \<open>dict_spread d other\<close> is \<open>{**d, **other}\<close>: the entries of
  \<open>other\<close> are stored into \<open>d\<close> one after the other.
\<close>

type_synonym pydict = "(string \<times> pyval) list"

definition dict_set :: "string \<Rightarrow> pyval \<Rightarrow> pydict \<Rightarrow> pydict" where
  "dict_set k v d = AList.update k v d"

definition dict_spread :: "pydict \<Rightarrow> pydict \<Rightarrow> pydict" where
  "dict_spread d other = fold (\<lambda>(k, v). dict_set k v) other d"

text \<open>\<open>os.environ\<close>.\<close>

type_synonym environ = "string \<rightharpoonup> string"

text \<open>Truthiness of an \<open>Optional[str]\<close>, and \<open>a or b\<close> on such values.\<close>

fun truthy :: "string option \<Rightarrow> bool" where
  "truthy None = False"
| "truthy (Some s) = (s \<noteq> [])"

definition py_or :: "string option \<Rightarrow> string option \<Rightarrow> string option" where
  "py_or a b = (if truthy a then a else b)"

text \<open>The text an f-string puts in for an \<open>Optional[str]\<close>: \<open>None\<close> prints as \<open>None\<close>.\<close>

fun py_format :: "string option \<Rightarrow> string" where
  "py_format None = ''None''"
| "py_format (Some s) = s"

datatype SecretStr = SecretStr string

fun get_secret_value :: "SecretStr \<Rightarrow> string" where
  "get_secret_value (SecretStr s) = s"

text \<open>
  The exceptions of a run: a \<open>ValueError\<close> that the validator raises itself, with its
  message, or an exception that leaves a constructor of the \<open>httpx\<close> library, with the
  name of its class.
\<close>

datatype error = ValueError string | HttpxError string

fun error_message :: "error \<Rightarrow> string" where
  "error_message (ValueError m) = m"
| "error_message (HttpxError x) = x"

subsection \<open>The HTTP client handles\<close>

text \<open>
  \<open>httpx.Client\<close> and \<open>httpx.AsyncClient\<close> belong to a library; a handle is modelled by
  the arguments it was constructed with (\<open>base_url\<close>, \<open>headers\<close>, \<open>timeout\<close>). Neither
  class defines \<open>__bool__\<close> or \<open>__len__\<close>, so \<open>not self.client\<close> holds exactly when the
  field is \<open>None\<close>.
\<close>

datatype httpx_Client =
  Client (client_base_url: string) (client_headers: "(string \<times> string) list") (client_timeout: int)

datatype httpx_AsyncClient =
  AsyncClient (async_base_url: string) (async_headers: "(string \<times> string) list") (async_timeout: int)

text \<open>
  A constructor of the library may raise instead of returning a handle (on a URL it
  cannot parse, on a header value it cannot encode). Which arguments make it raise is
  the library's business, so it is a parameter of the model: for each constructor, the
  exception it raises on the given arguments, or \<open>None\<close> when it returns.
\<close>

record httpx =
  Client_raises :: "string \<Rightarrow> (string \<times> string) list \<Rightarrow> int \<Rightarrow> string option"
  AsyncClient_raises :: "string \<Rightarrow> (string \<times> string) list \<Rightarrow> int \<Rightarrow> string option"

definition new_Client ::
  "httpx \<Rightarrow> string \<Rightarrow> (string \<times> string) list \<Rightarrow> int \<Rightarrow> error + httpx_Client" where
  "new_Client hx url hs t =
     (case Client_raises hx url hs t of
        Some x \<Rightarrow> Inl (HttpxError x)
      | None \<Rightarrow> Inr (Client url hs t))"

definition new_AsyncClient ::
  "httpx \<Rightarrow> string \<Rightarrow> (string \<times> string) list \<Rightarrow> int \<Rightarrow> error + httpx_AsyncClient" where
  "new_AsyncClient hx url hs t =
     (case AsyncClient_raises hx url hs t of
        Some x \<Rightarrow> Inl (HttpxError x)
      | None \<Rightarrow> Inr (AsyncClient url hs t))"

subsection \<open>The object\<close>

text \<open>
  The fields that \<open>AzureChatMistralAI\<close> inherits from \<open>ChatMistralAI\<close> and reads or
  writes here. The base class is not part of the sources; its fields are taken as
  they are used, each one optional where the code tests it against \<open>None\<close>.
\<close>

record ChatMistralAI =
  client :: "httpx_Client option"
  async_client :: "httpx_AsyncClient option"
  endpoint :: "string option"
  timeout :: int
  model :: "string option"
  temperature :: "pyfloat option"
  max_tokens :: "int option"
  top_p :: "pyfloat option"
  random_seed :: "int option"

record AzureChatMistralAI = ChatMistralAI +
  azure_endpoint :: "string option"
  mistral_api_key :: "SecretStr option"

subsection \<open>Field defaults\<close>

text \<open>
  Modelled from the spec: \<open>from_env\<close> of \<open>langchain_core.utils\<close>, which is not among
  the sources. The spec has the endpoint "resolved from an explicit field or an
  environment variable"; with \<open>default=None\<close> the factory gives the variable's value,
  or \<open>None\<close> when it is unset.
\<close>

definition from_env :: "string \<Rightarrow> environ \<Rightarrow> string option" where
  "from_env key env = env key"

text \<open>
  Modelled from the spec: \<open>secret_from_env\<close> of \<open>langchain_core.utils\<close>, which is not
  among the sources. The spec has the key "resolved from one of two environment
  variables in priority order", \<open>AZURE_MISTRAL_API_KEY\<close> "checked before
  \<open>MISTRAL_API_KEY\<close>"; with \<open>default=None\<close> the factory gives the value of the first
  variable of the list that is set, as a secret, or \<open>None\<close> when none is.
\<close>

fun secret_from_env :: "string list \<Rightarrow> environ \<Rightarrow> SecretStr option" where
  "secret_from_env [] env = None"
| "secret_from_env (k # ks) env =
     (case env k of Some v \<Rightarrow> Some (SecretStr v) | None \<Rightarrow> secret_from_env ks env)"

text \<open>
  The keyword arguments of a construction. For the two fields declared in this class
  the outer \<open>option\<close> says whether the keyword was supplied at all (a supplied value may
  be \<open>None\<close>); the inherited fields come populated, their defaults being the base
  class's.
\<close>

record init_args =
  arg_azure_endpoint :: "string option option"
  arg_api_key :: "SecretStr option option"
  arg_inherited :: ChatMistralAI

text \<open>A field with a \<open>default_factory\<close>: the factory runs only when the keyword is
  not supplied.\<close>

fun field_value :: "'a option \<Rightarrow> 'a \<Rightarrow> 'a" where
  "field_value None dflt = dflt"
| "field_value (Some v) dflt = v"

definition populate :: "environ \<Rightarrow> init_args \<Rightarrow> AzureChatMistralAI" where
  "populate env args =
     \<lparr> client = client (arg_inherited args),
       async_client = async_client (arg_inherited args),
       endpoint = endpoint (arg_inherited args),
       timeout = timeout (arg_inherited args),
       model = model (arg_inherited args),
       temperature = temperature (arg_inherited args),
       max_tokens = max_tokens (arg_inherited args),
       top_p = top_p (arg_inherited args),
       random_seed = random_seed (arg_inherited args),
       azure_endpoint =
         field_value (arg_azure_endpoint args) (from_env ''AZURE_MISTRAL_ENDPOINT'' env),
       mistral_api_key =
         field_value (arg_api_key args)
           (secret_from_env [''AZURE_MISTRAL_API_KEY'', ''MISTRAL_API_KEY''] env) \<rparr>"

subsection \<open>\<open>validate_environment\<close>\<close>

definition api_key_str :: "AzureChatMistralAI \<Rightarrow> string option" where
  "api_key_str self =
     (case mistral_api_key self of
        Some k \<Rightarrow> Some (get_secret_value k)
      | None \<Rightarrow> None)"

definition base_url_str :: "environ \<Rightarrow> AzureChatMistralAI \<Rightarrow> string option" where
  "base_url_str env self =
     py_or (py_or (azure_endpoint self) (env ''AZURE_MISTRAL_ENDPOINT'')) None"

definition client_headers_for :: "string option \<Rightarrow> (string \<times> string) list" where
  "client_headers_for key =
     [(''Content-Type'', ''application/json''),
      (''Accept'', ''application/json''),
      (''Authorization'', ''Bearer '' @ py_format key)]"

text \<open>\<open>not 0 <= x <= 1\<close> on a field that may be \<open>None\<close>.\<close>

definition out_of_range :: "pyfloat option \<Rightarrow> bool" where
  "out_of_range x =
     (case x of
        None \<Rightarrow> False
      | Some t \<Rightarrow> \<not> (int_le_float 0 t \<and> float_le_int t 1))"

text \<open>
  The validator mutates \<open>self\<close> and returns it. \<open>Inr s\<close> is a return with the object
  in state \<open>s\<close>; \<open>Inl (e, s)\<close> is \<open>e\<close> raised with the object left in state \<open>s\<close>.
  An exception of a handle constructor leaves the validator where it occurs: the
  assignment to the handle's field has not happened, what was assigned before has.
\<close>

definition validate_environment ::
  "httpx \<Rightarrow> environ \<Rightarrow> AzureChatMistralAI
     \<Rightarrow> (error \<times> AzureChatMistralAI) + AzureChatMistralAI" where
  "validate_environment hx env self =
     (let key = api_key_str self in
      case base_url_str env self of
        None \<Rightarrow> Inl (ValueError ''Must set AZURE_MISTRAL_ENDPOINT'', self)
      | Some url \<Rightarrow>
          if url = [] then Inl (ValueError ''Must set AZURE_MISTRAL_ENDPOINT'', self)
          else
            let s1 = self\<lparr>endpoint := Some url\<rparr> in
            case (if client s1 = None
                  then (case new_Client hx url (client_headers_for key) (timeout s1) of
                          Inl e \<Rightarrow> Inl (e, s1)
                        | Inr c \<Rightarrow> Inr (s1\<lparr>client := Some c\<rparr>))
                  else Inr s1) of
              Inl raised \<Rightarrow> Inl raised
            | Inr s2 \<Rightarrow>
                (case (if async_client s2 = None
                       then (case new_AsyncClient hx url (client_headers_for key) (timeout s2) of
                               Inl e \<Rightarrow> Inl (e, s2)
                             | Inr a \<Rightarrow> Inr (s2\<lparr>async_client := Some a\<rparr>))
                       else Inr s2) of
                   Inl raised \<Rightarrow> Inl raised
                 | Inr s3 \<Rightarrow>
                     if out_of_range (temperature s3)
                     then Inl (ValueError ''temperature must be in the range [0.0, 1.0]'', s3)
                     else if out_of_range (top_p s3)
                     then Inl (ValueError ''top_p must be in the range [0.0, 1.0]'', s3)
                     else Inr s3))"

text \<open>The state the object is in after the call, however the call ends.\<close>

fun object_after ::
  "(error \<times> AzureChatMistralAI) + AzureChatMistralAI \<Rightarrow> AzureChatMistralAI" where
  "object_after (Inl (e, s)) = s"
| "object_after (Inr s) = s"

text \<open>
  Construction: the fields are populated, then the validator runs on the new object;
  an exception of the validator leaves the constructor and the caller gets no object.
\<close>

definition AzureChatMistralAI_init ::
  "httpx \<Rightarrow> environ \<Rightarrow> init_args \<Rightarrow> error + AzureChatMistralAI" where
  "AzureChatMistralAI_init hx env args =
     (case validate_environment hx env (populate env args) of
        Inl (e, s) \<Rightarrow> Inl e
      | Inr s \<Rightarrow> Inr s)"

text \<open>
  The object a failed construction was working on, in the state it has when the
  exception leaves the constructor: the caller holds no reference to it, but what the
  validator had stored in it by then has been allocated. \<open>None\<close> when the construction
  succeeds.
\<close>

definition aborted_object :: "httpx \<Rightarrow> environ \<Rightarrow> init_args \<Rightarrow> AzureChatMistralAI option" where
  "aborted_object hx env args =
     (case validate_environment hx env (populate env args) of
        Inl (e, s) \<Rightarrow> Some s
      | Inr s \<Rightarrow> None)"

subsection \<open>The parameter dictionaries\<close>

definition default_params :: "AzureChatMistralAI \<Rightarrow> pydict" where
  "default_params self =
     (let defaults =
            [(''model'', py_opt PStr (model self)),
             (''temperature'', py_opt PFloat (temperature self)),
             (''max_tokens'', py_opt PInt (max_tokens self)),
             (''top_p'', py_opt PFloat (top_p self)),
             (''random_seed'', py_opt PInt (random_seed self))];
          filtered = filter (\<lambda>(k, v). v \<noteq> PNone) defaults
      in filtered)"

text \<open>
  \<open>_identifying_params\<close>; the first argument is what \<open>super()._identifying_params\<close>
  returns. The literal stores \<open>azure_endpoint\<close> first and spreads the base mapping
  after it.
\<close>

definition identifying_params :: "pydict \<Rightarrow> AzureChatMistralAI \<Rightarrow> pydict" where
  "identifying_params super_identifying_params self =
     dict_spread
       (dict_set ''azure_endpoint'' (py_opt PStr (azure_endpoint self)) [])
       super_identifying_params"

text \<open>
  \<open>lc_attributes\<close>; the first argument is what \<open>super().lc_attributes\<close> returns. The
  base mapping comes first and \<open>update\<close> stores \<open>azure_endpoint\<close> into it.
\<close>

definition lc_attributes :: "pydict \<Rightarrow> AzureChatMistralAI \<Rightarrow> pydict" where
  "lc_attributes super_lc_attributes self =
     (let attributes = super_lc_attributes
      in dict_spread attributes [(''azure_endpoint'', py_opt PStr (azure_endpoint self))])"

text \<open>
  \<open>_create_message_dicts\<close>; the first argument is \<open>super()._create_message_dicts\<close>,
  which returns a pair or raises. An exception of the base method passes through.
\<close>

definition create_message_dicts ::
  "('m list \<Rightarrow> string list option \<Rightarrow> 'e + 'd \<times> 'p) \<Rightarrow> 'm list \<Rightarrow> string list option
     \<Rightarrow> 'e + 'd \<times> 'p" where
  "create_message_dicts super_create_message_dicts messages stop =
     (case super_create_message_dicts messages stop of
        Inl e \<Rightarrow> Inl e
      | Inr (message_dicts, params) \<Rightarrow> Inr (message_dicts, params))"

subsection \<open>Notions of the specification\<close>

text \<open>
  A value lies outside the closed interval \<open>[0.0, 1.0]\<close> when it is not one of its
  members: a finite number below \<open>0\<close> or above \<open>1\<close>, an infinity, or NaN.
\<close>

fun outside_unit_interval :: "pyfloat \<Rightarrow> bool" where
  "outside_unit_interval (Finite r) = (r < 0 \<or> 1 < r)"
| "outside_unit_interval PosInf = True"
| "outside_unit_interval NegInf = True"
| "outside_unit_interval NaN = True"

text \<open>
  The exception, if any, that a run of the validator meets when it has to construct the
  synchronous handle, and likewise the asynchronous one: the endpoint resolves, the
  handle does not exist yet, and the constructor raises on the arguments the validator
  passes.
\<close>

definition client_failure :: "httpx \<Rightarrow> environ \<Rightarrow> AzureChatMistralAI \<Rightarrow> string option" where
  "client_failure hx env self =
     (case base_url_str env self of
        None \<Rightarrow> None
      | Some url \<Rightarrow>
          if client self = None
          then Client_raises hx url (client_headers_for (api_key_str self)) (timeout self)
          else None)"

definition async_failure :: "httpx \<Rightarrow> environ \<Rightarrow> AzureChatMistralAI \<Rightarrow> string option" where
  "async_failure hx env self =
     (case base_url_str env self of
        None \<Rightarrow> None
      | Some url \<Rightarrow>
          if async_client self = None
          then AsyncClient_raises hx url (client_headers_for (api_key_str self)) (timeout self)
          else None)"

subsection \<open>Concrete configurations\<close>

text \<open>
  For concrete runs, a library that makes one of the checks \<open>httpx\<close> makes: header
  values are encoded as ASCII, and a value with a character outside ASCII makes either
  constructor raise \<open>UnicodeEncodeError\<close>.
\<close>

definition encode_failure :: "string \<Rightarrow> (string \<times> string) list \<Rightarrow> int \<Rightarrow> string option" where
  "encode_failure url hs t =
     (if list_ex (\<lambda>(k, v). list_ex digit7 v) hs then Some ''UnicodeEncodeError'' else None)"

definition ascii_httpx :: httpx where
  "ascii_httpx = \<lparr> Client_raises = encode_failure, AsyncClient_raises = encode_failure \<rparr>"


text \<open>The inherited fields with the values a construction without further keywords
  gives them, and a construction with an explicit endpoint and key.\<close>

definition example_inherited :: ChatMistralAI where
  "example_inherited =
     \<lparr> client = None, async_client = None, endpoint = None, timeout = 120,
       model = Some ''mistral-small'', temperature = Some (Finite (7 / 10)),
       max_tokens = None, top_p = Some (Finite 1), random_seed = None \<rparr>"

definition example_args :: init_args where
  "example_args =
     \<lparr> arg_azure_endpoint = Some (Some ''https://azure.example/''),
       arg_api_key = Some (Some (SecretStr ''k'')),
       arg_inherited = example_inherited \<rparr>"

definition example_instance :: AzureChatMistralAI where
  "example_instance =
     \<lparr> client = Some (Client ''https://azure.example/'' (client_headers_for (Some ''k'')) 120),
       async_client =
         Some (AsyncClient ''https://azure.example/'' (client_headers_for (Some ''k'')) 120),
       endpoint = Some ''https://azure.example/'', timeout = 120,
       model = Some ''mistral-small'', temperature = Some (Finite (7 / 10)),
       max_tokens = None, top_p = Some (Finite 1), random_seed = None,
       azure_endpoint = Some ''https://azure.example/'',
       mistral_api_key = Some (SecretStr ''k'') \<rparr>"

text \<open>Environments: one with the endpoint variable only, one with both key variables.\<close>

definition example_env :: environ where
  "example_env = [''AZURE_MISTRAL_ENDPOINT'' \<mapsto> ''https://x.example/'']"

definition both_keys_env :: environ where
  "both_keys_env = [''AZURE_MISTRAL_API_KEY'' \<mapsto> ''a'', ''MISTRAL_API_KEY'' \<mapsto> ''b'']"

text \<open>A construction that supplies neither endpoint nor key, and the object it gives
  under \<open>example_env\<close>.\<close>

definition env_only_args :: init_args where
  "env_only_args =
     \<lparr> arg_azure_endpoint = None, arg_api_key = None, arg_inherited = example_inherited \<rparr>"

definition env_only_instance :: AzureChatMistralAI where
  "env_only_instance =
     \<lparr> client = Some (Client ''https://x.example/'' (client_headers_for None) 120),
       async_client = Some (AsyncClient ''https://x.example/'' (client_headers_for None) 120),
       endpoint = Some ''https://x.example/'', timeout = 120,
       model = Some ''mistral-small'', temperature = Some (Finite (7 / 10)),
       max_tokens = None, top_p = Some (Finite 1), random_seed = None,
       azure_endpoint = Some ''https://x.example/'',
       mistral_api_key = None \<rparr>"

text \<open>A construction that supplies the empty string as the endpoint.\<close>

definition empty_endpoint_args :: init_args where
  "empty_endpoint_args =
     \<lparr> arg_azure_endpoint = Some (Some []), arg_api_key = None,
       arg_inherited = example_inherited \<rparr>"

text \<open>Constructions with \<open>temperature=1.5\<close>, with and without a key, and one that
  supplies a synchronous client of its own and no key.\<close>

definition hot_args :: init_args where
  "hot_args =
     \<lparr> arg_azure_endpoint = Some (Some ''https://azure.example/''),
       arg_api_key = Some (Some (SecretStr ''k'')),
       arg_inherited = example_inherited\<lparr> temperature := Some (Finite (3 / 2)) \<rparr> \<rparr>"



text \<open>Constructions whose key is the one character U+00E9, which is outside ASCII;
  the second has \<open>temperature=1.5\<close> as well.\<close>

definition accent_key_args :: init_args where
  "accent_key_args =
     \<lparr> arg_azure_endpoint = Some (Some ''https://azure.example/''),
       arg_api_key = Some (Some (SecretStr [CHR 0xE9])),
       arg_inherited = example_inherited \<rparr>"


section \<open>Properties\<close>

subsection \<open>Dictionaries\<close>

lemma map_of_dict_set: "map_of (dict_set k v d) = (map_of d)(k \<mapsto> v)"
  by (simp add: dict_set_def update_conv')

lemma map_of_dict_spread:
  "distinct (map fst other) \<Longrightarrow> map_of (dict_spread d other) = map_of d ++ map_of other"
  unfolding dict_spread_def
proof (induction other arbitrary: d)
  case Nil
  show ?case by simp
next
  case (Cons p other)
  obtain k v where p: "p = (k, v)" by (cases p)
  from Cons.prems p have fresh: "map_of other k = None" and dist: "distinct (map fst other)"
    by (auto simp: map_of_eq_None_iff)
  have "map_of (fold (\<lambda>(k, v). dict_set k v) (p # other) d)
          = map_of (dict_set k v d) ++ map_of other"
    using Cons.IH [OF dist] by (simp add: p)
  also have "\<dots> = map_of d ++ map_of (p # other)"
    using fresh by (auto simp: p map_of_dict_set map_add_def fun_eq_iff split: option.splits)
  finally show ?case .
qed

subsection \<open>The steps of \<open>validate_environment\<close>\<close>

lemma out_of_range_iff:
  "out_of_range x \<longleftrightarrow> (\<exists>t. x = Some t \<and> outside_unit_interval t)"
proof (cases x)
  case None
  then show ?thesis by (simp add: out_of_range_def)
next
  case (Some t)
  then show ?thesis by (cases t) (auto simp: out_of_range_def)
qed

lemma base_url_str_cases:
  "base_url_str env self =
     (if truthy (azure_endpoint self) then azure_endpoint self
      else if truthy (env ''AZURE_MISTRAL_ENDPOINT'') then env ''AZURE_MISTRAL_ENDPOINT''
      else None)"
  by (simp add: base_url_str_def py_or_def)

lemma base_url_str_Some: "base_url_str env self = Some url \<Longrightarrow> url \<noteq> []"
  by (auto simp: base_url_str_cases split: if_splits)

lemma resolvable_iff:
  "(truthy (azure_endpoint self) \<or> truthy (env ''AZURE_MISTRAL_ENDPOINT''))
     \<longleftrightarrow> (\<exists>url. base_url_str env self = Some url)"
  by (cases "azure_endpoint self"; cases "env ''AZURE_MISTRAL_ENDPOINT''")
     (auto simp: base_url_str_cases)

lemma validate_environment_None:
  "base_url_str env self = None \<Longrightarrow>
     validate_environment hx env self
       = Inl (ValueError ''Must set AZURE_MISTRAL_ENDPOINT'', self)"
  by (simp add: validate_environment_def)

text \<open>
  With the endpoint resolved, a run ends in one of four ways: the synchronous
  constructor raises, the asynchronous constructor raises, a range check raises, or
  the validator returns.
\<close>

lemma validate_environment_Some:
  assumes "base_url_str env self = Some url"
  shows "validate_environment hx env self =
     (case client_failure hx env self of
        Some x \<Rightarrow> Inl (HttpxError x, self\<lparr> endpoint := Some url \<rparr>)
      | None \<Rightarrow>
          (case async_failure hx env self of
             Some x \<Rightarrow>
               Inl (HttpxError x,
                    self\<lparr> endpoint := Some url,
                          client := (case client self of
                                       None \<Rightarrow> Some (Client url
                                                       (client_headers_for (api_key_str self))
                                                       (timeout self))
                                     | Some c \<Rightarrow> Some c) \<rparr>)
           | None \<Rightarrow>
               (let s3 = self\<lparr> endpoint := Some url,
                               client := (case client self of
                                            None \<Rightarrow> Some (Client url
                                                            (client_headers_for (api_key_str self))
                                                            (timeout self))
                                          | Some c \<Rightarrow> Some c),
                               async_client := (case async_client self of
                                            None \<Rightarrow> Some (AsyncClient url
                                                            (client_headers_for (api_key_str self))
                                                            (timeout self))
                                          | Some a \<Rightarrow> Some a) \<rparr>
                in if out_of_range (temperature self)
                   then Inl (ValueError ''temperature must be in the range [0.0, 1.0]'', s3)
                   else if out_of_range (top_p self)
                   then Inl (ValueError ''top_p must be in the range [0.0, 1.0]'', s3)
                   else Inr s3)))"
  using assms base_url_str_Some [OF assms]
  by (cases "client self"; cases "async_client self";
      cases "Client_raises hx url (client_headers_for (api_key_str self)) (timeout self)";
      cases "AsyncClient_raises hx url (client_headers_for (api_key_str self)) (timeout self)")
     (simp_all add: validate_environment_def client_failure_def async_failure_def
        new_Client_def new_AsyncClient_def Let_def)

text \<open>What the object holds when an exception leaves a run whose endpoint resolved.\<close>

lemma validate_environment_Inl:
  assumes url: "base_url_str env self = Some url"
    and err: "validate_environment hx env self = Inl (e, s)"
  shows "(client_failure hx env self = Some x \<longrightarrow>
            e = HttpxError x \<and> s = self\<lparr> endpoint := Some url \<rparr>)
       \<and> (client_failure hx env self = None \<longrightarrow> async_failure hx env self = Some y \<longrightarrow>
            e = HttpxError y
            \<and> s = self\<lparr> endpoint := Some url,
                        client := (case client self of
                                     None \<Rightarrow> Some (Client url
                                                     (client_headers_for (api_key_str self))
                                                     (timeout self))
                                   | Some c \<Rightarrow> Some c) \<rparr>)
       \<and> (client_failure hx env self = None \<longrightarrow> async_failure hx env self = None \<longrightarrow>
            (e = ValueError ''temperature must be in the range [0.0, 1.0]''
               \<and> out_of_range (temperature self)
             \<or> e = ValueError ''top_p must be in the range [0.0, 1.0]''
               \<and> out_of_range (top_p self))
            \<and> s = self\<lparr> endpoint := Some url,
                        client := (case client self of
                                     None \<Rightarrow> Some (Client url
                                                     (client_headers_for (api_key_str self))
                                                     (timeout self))
                                   | Some c \<Rightarrow> Some c),
                        async_client := (case async_client self of
                                     None \<Rightarrow> Some (AsyncClient url
                                                     (client_headers_for (api_key_str self))
                                                     (timeout self))
                                   | Some a \<Rightarrow> Some a) \<rparr>)"
proof -
  have sync: "client_failure hx env self = Some x \<longrightarrow>
            e = HttpxError x \<and> s = self\<lparr> endpoint := Some url \<rparr>"
  proof
    assume cf: "client_failure hx env self = Some x"
    from err show "e = HttpxError x \<and> s = self\<lparr> endpoint := Some url \<rparr>"
      unfolding validate_environment_Some [OF url] cf by simp
  qed
  have async: "client_failure hx env self = None \<longrightarrow> async_failure hx env self = Some y \<longrightarrow>
            e = HttpxError y
            \<and> s = self\<lparr> endpoint := Some url,
                        client := (case client self of
                                     None \<Rightarrow> Some (Client url
                                                     (client_headers_for (api_key_str self))
                                                     (timeout self))
                                   | Some c \<Rightarrow> Some c) \<rparr>"
  proof (intro impI)
    assume cf: "client_failure hx env self = None" and af: "async_failure hx env self = Some y"
    from err show "e = HttpxError y
            \<and> s = self\<lparr> endpoint := Some url,
                        client := (case client self of
                                     None \<Rightarrow> Some (Client url
                                                     (client_headers_for (api_key_str self))
                                                     (timeout self))
                                   | Some c \<Rightarrow> Some c) \<rparr>"
      unfolding validate_environment_Some [OF url] cf af by simp
  qed
  have range: "client_failure hx env self = None \<longrightarrow> async_failure hx env self = None \<longrightarrow>
            (e = ValueError ''temperature must be in the range [0.0, 1.0]''
               \<and> out_of_range (temperature self)
             \<or> e = ValueError ''top_p must be in the range [0.0, 1.0]''
               \<and> out_of_range (top_p self))
            \<and> s = self\<lparr> endpoint := Some url,
                        client := (case client self of
                                     None \<Rightarrow> Some (Client url
                                                     (client_headers_for (api_key_str self))
                                                     (timeout self))
                                   | Some c \<Rightarrow> Some c),
                        async_client := (case async_client self of
                                     None \<Rightarrow> Some (AsyncClient url
                                                     (client_headers_for (api_key_str self))
                                                     (timeout self))
                                   | Some a \<Rightarrow> Some a) \<rparr>"
  proof (intro impI)
    assume ok: "client_failure hx env self = None" "async_failure hx env self = None"
    define s3 where "s3 = self\<lparr> endpoint := Some url,
                        client := (case client self of
                                     None \<Rightarrow> Some (Client url
                                                     (client_headers_for (api_key_str self))
                                                     (timeout self))
                                   | Some c \<Rightarrow> Some c),
                        async_client := (case async_client self of
                                     None \<Rightarrow> Some (AsyncClient url
                                                     (client_headers_for (api_key_str self))
                                                     (timeout self))
                                   | Some a \<Rightarrow> Some a) \<rparr>"
    have run: "validate_environment hx env self =
      (if out_of_range (temperature self)
         then Inl (ValueError ''temperature must be in the range [0.0, 1.0]'', s3)
         else if out_of_range (top_p self)
         then Inl (ValueError ''top_p must be in the range [0.0, 1.0]'', s3)
         else Inr s3)"
      unfolding validate_environment_Some [OF url] ok s3_def Let_def by simp
    from err have "s = s3"
      and "e = ValueError ''temperature must be in the range [0.0, 1.0]''
            \<and> out_of_range (temperature self)
          \<or> e = ValueError ''top_p must be in the range [0.0, 1.0]''
            \<and> out_of_range (top_p self)"
      unfolding run by (simp_all split: if_splits)
    then show "(e = ValueError ''temperature must be in the range [0.0, 1.0]''
               \<and> out_of_range (temperature self)
             \<or> e = ValueError ''top_p must be in the range [0.0, 1.0]''
               \<and> out_of_range (top_p self))
            \<and> s = self\<lparr> endpoint := Some url,
                        client := (case client self of
                                     None \<Rightarrow> Some (Client url
                                                     (client_headers_for (api_key_str self))
                                                     (timeout self))
                                   | Some c \<Rightarrow> Some c),
                        async_client := (case async_client self of
                                     None \<Rightarrow> Some (AsyncClient url
                                                     (client_headers_for (api_key_str self))
                                                     (timeout self))
                                   | Some a \<Rightarrow> Some a) \<rparr>"
      unfolding s3_def by blast
  qed
  from sync async range show ?thesis
    by (intro conjI)
qed


text \<open>Handles that exist are not constructed.\<close>

lemma client_failure_existing: "client self \<noteq> None \<Longrightarrow> client_failure hx env self = None"
  by (auto simp: client_failure_def split: option.splits)

lemma async_failure_existing:
  "async_client self \<noteq> None \<Longrightarrow> async_failure hx env self = None"
  by (auto simp: async_failure_def split: option.splits)

lemma client_failure_Some: "client_failure hx env self = Some x \<Longrightarrow> client self = None"
  by (auto simp: client_failure_def split: option.splits if_splits)

lemma async_failure_Some: "async_failure hx env self = Some y \<Longrightarrow> async_client self = None"
  by (auto simp: async_failure_def split: option.splits if_splits)

subsection \<open>A first construction\<close>

lemma encode_failure_ascii:
  "encode_failure url (client_headers_for None) t = None"
  "encode_failure url (client_headers_for (Some ''k'')) t = None"
  by (simp_all add: encode_failure_def client_headers_for_def)

lemma example_init:
  "AzureChatMistralAI_init ascii_httpx Map.empty example_args = Inr example_instance"
  by (simp add: AzureChatMistralAI_init_def validate_environment_def populate_def
        example_args_def example_inherited_def example_instance_def base_url_str_def
        py_or_def api_key_str_def out_of_range_def new_Client_def new_AsyncClient_def
        ascii_httpx_def encode_failure_ascii Let_def)

subsection \<open>\<open>_identifying_params\<close>\<close>

text \<open>What the dictionary literal holds, for every base mapping (a dictionary, so its
  keys are distinct): the base mapping's value under each of its keys, and the
  instance's \<open>azure_endpoint\<close> only where the base mapping has no such key.\<close>

lemma identifying_params_lookup:
  assumes "distinct (map fst base)"
  shows "map_of (identifying_params base self) k =
     (case map_of base k of
        Some v \<Rightarrow> Some v
      | None \<Rightarrow> if k = ''azure_endpoint'' then Some (py_opt PStr (azure_endpoint self)) else None)"
  using assms
  by (simp add: identifying_params_def map_of_dict_spread map_of_dict_set map_add_def
        split: option.splits)

text \<open>
  C1: the identifying parameters are to hold, under \<open>azure_endpoint\<close>, the instance's
  configured \<open>azure_endpoint\<close>, also when the base mapping has that key with another
  value. The code does not do that. The instance below is a validated one, configured
  with \<open>https://azure.example/\<close>; with a base mapping that holds
  \<open>https://base.example/\<close> under \<open>azure_endpoint\<close>, \<open>_identifying_params\<close> returns the
  base mapping's value, because the literal spreads the base mapping last. On the
  same two inputs \<open>lc_attributes\<close>, which stores \<open>azure_endpoint\<close> last, returns the
  instance's value.
\<close>

theorem identifying_params_collision:
  "AzureChatMistralAI_init ascii_httpx Map.empty example_args = Inr example_instance
   \<and> azure_endpoint example_instance = Some ''https://azure.example/''
   \<and> map_of (identifying_params [(''azure_endpoint'', PStr ''https://base.example/'')]
               example_instance) ''azure_endpoint''
       = Some (PStr ''https://base.example/'')
   \<and> map_of (lc_attributes [(''azure_endpoint'', PStr ''https://base.example/'')]
               example_instance) ''azure_endpoint''
       = Some (PStr ''https://azure.example/'')"
  by (simp add: example_init)
     (simp add: example_instance_def identifying_params_def lc_attributes_def
        dict_spread_def dict_set_def)

subsection \<open>\<open>_default_params\<close>\<close>

text \<open>
  C7: for every instance, \<open>_default_params\<close> is exactly the mapping that holds, under
  each of the keys \<open>model\<close>, \<open>temperature\<close>, \<open>max_tokens\<close>, \<open>top_p\<close> and
  \<open>random_seed\<close>, the value of that field when the field is not \<open>None\<close>, and holds
  nothing else: a key whose field is \<open>None\<close> does not occur, no key occurs twice and no
  value is \<open>None\<close>. The operation takes the object and returns the dictionary only,
  so it changes nothing.
\<close>

theorem default_params_exact:
  "map_of (default_params self) k =
     (if k = ''model'' then map_option PStr (model self)
      else if k = ''temperature'' then map_option PFloat (temperature self)
      else if k = ''max_tokens'' then map_option PInt (max_tokens self)
      else if k = ''top_p'' then map_option PFloat (top_p self)
      else if k = ''random_seed'' then map_option PInt (random_seed self)
      else None)
   \<and> distinct (map fst (default_params self))
   \<and> PNone \<notin> snd ` set (default_params self)"
  by (cases "model self"; cases "temperature self"; cases "max_tokens self";
      cases "top_p self"; cases "random_seed self")
     (simp_all add: default_params_def)

theorem default_params_exact_witness:
  "map_of (default_params example_instance) ''max_tokens'' = None
   \<and> map_of (default_params example_instance) ''top_p'' = Some (PFloat (Finite 1))
   \<and> map_of (default_params example_instance) ''azure_endpoint'' = None"
  using default_params_exact [of example_instance "''max_tokens''"]
        default_params_exact [of example_instance "''top_p''"]
        default_params_exact [of example_instance "''azure_endpoint''"]
  by (simp add: example_instance_def)

subsection \<open>\<open>_create_message_dicts\<close>\<close>

text \<open>
  C8: for every list of messages and every optional stop list,
  \<open>_create_message_dicts\<close> returns what the base implementation returns on the same
  arguments: the same pair of message dictionaries and parameters, or the same
  exception.
\<close>

theorem create_message_dicts_passthrough:
  "create_message_dicts super_create_message_dicts messages stop
     = super_create_message_dicts messages stop"
  by (simp add: create_message_dicts_def split: sum.splits prod.splits)

subsection \<open>Resolving the endpoint\<close>

text \<open>
  C2: when the variable \<open>AZURE_MISTRAL_ENDPOINT\<close> is unset and no endpoint is
  configured, \<open>validate_environment\<close> raises \<open>ValueError\<close> with the message
  \<open>Must set AZURE_MISTRAL_ENDPOINT\<close>, which mentions the variable, and leaves the
  object as it was; a construction that supplies no \<open>azure_endpoint\<close> fails with
  that error and yields no instance. No constructor of the library is reached, so
  this holds whatever the library does.
\<close>

theorem missing_endpoint_fails:
  assumes "env ''AZURE_MISTRAL_ENDPOINT'' = None"
  shows "(azure_endpoint self = None \<longrightarrow>
            validate_environment hx env self
              = Inl (ValueError ''Must set AZURE_MISTRAL_ENDPOINT'', self))
       \<and> (arg_azure_endpoint args = None \<longrightarrow>
            AzureChatMistralAI_init hx env args
              = Inl (ValueError ''Must set AZURE_MISTRAL_ENDPOINT''))
       \<and> sublist ''AZURE_MISTRAL_ENDPOINT''
            (error_message (ValueError ''Must set AZURE_MISTRAL_ENDPOINT''))"
proof (intro conjI impI)
  assume "azure_endpoint self = None"
  with assms have "base_url_str env self = None"
    by (simp add: base_url_str_cases)
  then show "validate_environment hx env self
               = Inl (ValueError ''Must set AZURE_MISTRAL_ENDPOINT'', self)"
    by (rule validate_environment_None)
next
  assume "arg_azure_endpoint args = None"
  with assms have "base_url_str env (populate env args) = None"
    by (simp add: base_url_str_cases populate_def from_env_def)
  then show "AzureChatMistralAI_init hx env args
               = Inl (ValueError ''Must set AZURE_MISTRAL_ENDPOINT'')"
    by (simp add: AzureChatMistralAI_init_def validate_environment_None)
next
  have "''Must set AZURE_MISTRAL_ENDPOINT'' = ''Must set '' @ ''AZURE_MISTRAL_ENDPOINT'' @ []"
    by simp
  then show "sublist ''AZURE_MISTRAL_ENDPOINT''
          (error_message (ValueError ''Must set AZURE_MISTRAL_ENDPOINT''))"
    unfolding sublist_def error_message.simps by blast
qed

theorem missing_endpoint_fails_witness:
  "arg_azure_endpoint env_only_args = None
   \<and> azure_endpoint (populate Map.empty env_only_args) = None
   \<and> validate_environment ascii_httpx Map.empty (populate Map.empty env_only_args)
       = Inl (ValueError ''Must set AZURE_MISTRAL_ENDPOINT'', populate Map.empty env_only_args)
   \<and> AzureChatMistralAI_init ascii_httpx Map.empty env_only_args
       = Inl (ValueError ''Must set AZURE_MISTRAL_ENDPOINT'')"
  using missing_endpoint_fails
    [of Map.empty "populate Map.empty env_only_args" ascii_httpx env_only_args]
  by (simp add: env_only_args_def populate_def from_env_def)

text \<open>
  C3, as the claim states it, fails: an explicit \<open>azure_endpoint\<close> that is the empty
  string is present, yet \<open>self.azure_endpoint or os.environ.get(...)\<close> passes it over
  and the endpoint resolves to the variable's value.
\<close>

theorem empty_endpoint_counterexample:
  "azure_endpoint (populate example_env empty_endpoint_args) = Some []
   \<and> \<not> isl (validate_environment ascii_httpx example_env
               (populate example_env empty_endpoint_args))
   \<and> endpoint (object_after
        (validate_environment ascii_httpx example_env
           (populate example_env empty_endpoint_args)))
       = Some ''https://x.example/''"
  by (simp add: validate_environment_def populate_def base_url_str_def py_or_def
        api_key_str_def out_of_range_def new_Client_def new_AsyncClient_def ascii_httpx_def
        encode_failure_ascii Let_def example_env_def empty_endpoint_args_def
        example_inherited_def)

text \<open>
  C3, amended: for every configuration, \<open>validate_environment\<close> resolves the endpoint
  as the explicit \<open>azure_endpoint\<close> field value when that is present and not empty,
  otherwise as the value of \<open>AZURE_MISTRAL_ENDPOINT\<close>; on success the resolved value
  is a non-empty string and is what the instance's \<open>endpoint\<close> field holds, whatever
  the field held before.
\<close>

theorem validate_environment_endpoint:
  assumes "validate_environment hx env self = Inr s"
  shows "endpoint s =
           (if truthy (azure_endpoint self) then azure_endpoint self
            else env ''AZURE_MISTRAL_ENDPOINT'')
         \<and> truthy (endpoint s)"
proof (cases "base_url_str env self")
  case None
  with assms show ?thesis by (simp add: validate_environment_None)
next
  case (Some url)
  from assms have "endpoint s = Some url"
    by (auto simp: validate_environment_Some [OF Some] Let_def
          split: option.splits if_splits)
  with Some base_url_str_Some [OF Some] show ?thesis
    by (auto simp: base_url_str_cases split: if_splits)
qed

theorem validate_environment_endpoint_witness:
  "validate_environment ascii_httpx example_env (populate example_env env_only_args)
     = Inr env_only_instance
   \<and> azure_endpoint (populate example_env env_only_args) = Some ''https://x.example/''
   \<and> endpoint env_only_instance = Some ''https://x.example/''"
proof -
  have run: "validate_environment ascii_httpx example_env (populate example_env env_only_args)
               = Inr env_only_instance"
    by (simp add: validate_environment_def populate_def base_url_str_def py_or_def
          api_key_str_def out_of_range_def from_env_def new_Client_def new_AsyncClient_def
          ascii_httpx_def encode_failure_ascii Let_def example_env_def
          env_only_args_def example_inherited_def env_only_instance_def)
  from validate_environment_endpoint [OF run] run show ?thesis
    by (simp add: populate_def from_env_def example_env_def env_only_args_def)
qed

subsection \<open>Resolving the key\<close>

text \<open>
  C4: when a construction supplies no \<open>api_key\<close>, the credential that
  \<open>validate_environment\<close> extracts is the value of \<open>AZURE_MISTRAL_API_KEY\<close> whenever
  that variable is set, whether or not \<open>MISTRAL_API_KEY\<close> is set too; the value of
  \<open>MISTRAL_API_KEY\<close> is taken only when \<open>AZURE_MISTRAL_API_KEY\<close> is unset.
\<close>

theorem api_key_priority:
  assumes "arg_api_key args = None"
  shows "(\<forall>a. env ''AZURE_MISTRAL_API_KEY'' = Some a \<longrightarrow>
              mistral_api_key (populate env args) = Some (SecretStr a)
            \<and> api_key_str (populate env args) = Some a)
       \<and> (env ''AZURE_MISTRAL_API_KEY'' = None \<longrightarrow>
              api_key_str (populate env args) = env ''MISTRAL_API_KEY'')"
  using assms
  by (auto simp: populate_def api_key_str_def split: option.splits)

theorem api_key_priority_witness:
  "arg_api_key env_only_args = None
   \<and> both_keys_env ''AZURE_MISTRAL_API_KEY'' = Some ''a''
   \<and> both_keys_env ''MISTRAL_API_KEY'' = Some ''b''
   \<and> api_key_str (populate both_keys_env env_only_args) = Some ''a''"
  using api_key_priority [of env_only_args both_keys_env]
  by (simp add: both_keys_env_def env_only_args_def)

subsection \<open>The range checks\<close>




subsection \<open>The client handles\<close>

text \<open>
  C6: in every environment, running \<open>validate_environment\<close> on an object leaves a
  synchronous client handle that exists as it is, and leaves an asynchronous client
  handle that exists as it is, each independently of the other and however the run
  ends; and a second run on the object a successful run returned returns that same
  object.
\<close>

theorem validate_environment_keeps_handles:
  "(client self = Some c \<longrightarrow>
      client (object_after (validate_environment hx env self)) = Some c)
   \<and> (async_client self = Some a \<longrightarrow>
      async_client (object_after (validate_environment hx env self)) = Some a)
   \<and> (validate_environment hx env self = Inr s \<longrightarrow> validate_environment hx env s = Inr s)"
proof (cases "base_url_str env self")
  case None
  then show ?thesis by (simp add: validate_environment_None)
next
  case (Some url)
  note run = validate_environment_Some [OF Some, of hx]
  have sync: "client self = Some c \<longrightarrow>
      client (object_after (validate_environment hx env self)) = Some c"
    unfolding run by (simp add: Let_def split: option.splits)
  have async: "async_client self = Some a \<longrightarrow>
      async_client (object_after (validate_environment hx env self)) = Some a"
    unfolding run by (simp add: Let_def split: option.splits)
  have again: "validate_environment hx env self = Inr s \<longrightarrow> validate_environment hx env s = Inr s"
  proof
    assume ret: "validate_environment hx env self = Inr s"
    from ret
    have s: "s = self\<lparr> endpoint := Some url,
                     client := (case client self of
                                  None \<Rightarrow> Some (Client url (client_headers_for (api_key_str self))
                                                  (timeout self))
                                | Some c \<Rightarrow> Some c),
                     async_client := (case async_client self of
                                  None \<Rightarrow> Some (AsyncClient url
                                                  (client_headers_for (api_key_str self))
                                                  (timeout self))
                                | Some a \<Rightarrow> Some a) \<rparr>"
      and ok: "\<not> out_of_range (temperature self)" "\<not> out_of_range (top_p self)"
      unfolding run by (auto simp: Let_def split: option.splits if_splits)
    have url': "base_url_str env s = Some url"
      using Some by (simp add: s base_url_str_def)
    have "client s \<noteq> None" "async_client s \<noteq> None"
      by (simp_all add: s split: option.splits)
    then have quiet: "client_failure hx env s = None" "async_failure hx env s = None"
      by (simp_all add: client_failure_existing async_failure_existing)
    have vals: "temperature s = temperature self" "top_p s = top_p self"
      by (simp_all add: s)
    have unchanged: "s\<lparr> endpoint := Some url,
                 client := (case client s of
                              None \<Rightarrow> Some (Client url (client_headers_for (api_key_str s))
                                              (timeout s))
                            | Some c \<Rightarrow> Some c),
                 async_client := (case async_client s of
                              None \<Rightarrow> Some (AsyncClient url (client_headers_for (api_key_str s))
                                              (timeout s))
                            | Some a \<Rightarrow> Some a) \<rparr> = s"
      by (cases "client self"; cases "async_client self") (simp_all add: s)
    show "validate_environment hx env s = Inr s"
      unfolding validate_environment_Some [OF url', of hx] quiet Let_def unchanged vals
      using ok by simp
  qed
  from sync async again show ?thesis
    by (intro conjI)
qed

theorem validate_environment_keeps_handles_witness:
  "validate_environment ascii_httpx Map.empty (populate Map.empty example_args)
     = Inr example_instance
   \<and> validate_environment ascii_httpx Map.empty example_instance = Inr example_instance
   \<and> client example_instance
       = Some (Client ''https://azure.example/'' (client_headers_for (Some ''k'')) 120)
   \<and> client (object_after (validate_environment ascii_httpx example_env example_instance))
       = Some (Client ''https://azure.example/'' (client_headers_for (Some ''k'')) 120)
   \<and> async_client example_instance
       = Some (AsyncClient ''https://azure.example/'' (client_headers_for (Some ''k'')) 120)
   \<and> async_client (object_after (validate_environment ascii_httpx example_env example_instance))
       = Some (AsyncClient ''https://azure.example/'' (client_headers_for (Some ''k'')) 120)"
proof -
  have first: "validate_environment ascii_httpx Map.empty (populate Map.empty example_args)
                 = Inr example_instance"
    by (simp add: validate_environment_def populate_def base_url_str_def py_or_def
          api_key_str_def out_of_range_def new_Client_def new_AsyncClient_def
          ascii_httpx_def encode_failure_ascii Let_def example_args_def
          example_inherited_def example_instance_def)
  from validate_environment_keeps_handles
         [of "populate Map.empty example_args"
             "Client ''https://azure.example/'' (client_headers_for (Some ''k'')) 120"
             ascii_httpx Map.empty
             "AsyncClient ''https://azure.example/'' (client_headers_for (Some ''k'')) 120"
             example_instance]
       first
  have second: "validate_environment ascii_httpx Map.empty example_instance
                  = Inr example_instance"
    by simp
  from validate_environment_keeps_handles
         [of example_instance
             "Client ''https://azure.example/'' (client_headers_for (Some ''k'')) 120"
             ascii_httpx example_env
             "AsyncClient ''https://azure.example/'' (client_headers_for (Some ''k'')) 120"]
  have "client (object_after (validate_environment ascii_httpx example_env example_instance))
       = Some (Client ''https://azure.example/'' (client_headers_for (Some ''k'')) 120)
   \<and> async_client (object_after
        (validate_environment ascii_httpx example_env example_instance))
       = Some (AsyncClient ''https://azure.example/'' (client_headers_for (Some ''k'')) 120)"
    by (simp add: example_instance_def)
  with first second show ?thesis
    by (simp add: example_instance_def)
qed

subsection \<open>What a failed validation leaves behind\<close>

text \<open>
  C9, as the claim states it, fails: the range checks come after the endpoint is
  stored and the handles are constructed. A construction with \<open>temperature=1.5\<close>
  fails with the error of the range check, and the object it was working on, which
  had no endpoint and no handles when the validator started, holds the endpoint and
  two constructed handles when the exception leaves the constructor.
\<close>

theorem failed_construction_counterexample:
  "AzureChatMistralAI_init ascii_httpx Map.empty hot_args
     = Inl (ValueError ''temperature must be in the range [0.0, 1.0]'')
   \<and> client (populate Map.empty hot_args) = None
   \<and> async_client (populate Map.empty hot_args) = None
   \<and> endpoint (populate Map.empty hot_args) = None
   \<and> aborted_object ascii_httpx Map.empty hot_args
       = Some ((populate Map.empty hot_args)
                \<lparr> endpoint := Some ''https://azure.example/'',
                  client := Some (Client ''https://azure.example/''
                                    (client_headers_for (Some ''k'')) 120),
                  async_client := Some (AsyncClient ''https://azure.example/''
                                    (client_headers_for (Some ''k'')) 120) \<rparr>)"
  by (simp add: AzureChatMistralAI_init_def aborted_object_def validate_environment_def
        populate_def base_url_str_def py_or_def api_key_str_def out_of_range_def
        new_Client_def new_AsyncClient_def ascii_httpx_def encode_failure_ascii Let_def
        hot_args_def example_inherited_def)

text \<open>
  C9, amended: every exception of \<open>validate_environment\<close> is raised in the call
  itself and is one of four. The missing-endpoint error is raised before anything is
  written: the object is unchanged, and this is the only configuration error without
  side effects. An exception of the synchronous constructor leaves the resolved
  endpoint stored and nothing else. An exception of the asynchronous constructor
  leaves the endpoint stored and the synchronous handle present. A \<open>temperature\<close> or
  \<open>top_p\<close> error is raised with that value out of range, after the endpoint was
  stored and each handle that did not exist was constructed: the object then holds the
  endpoint and both handles. Handles that existed are the same and no other field
  changes. In a construction the exception leaves the constructor, no instance is
  returned, and the object the construction worked on is in the state described.
\<close>

theorem validate_environment_error_state:
  assumes "validate_environment hx env self = Inl (e, s)"
  shows "((e = ValueError ''Must set AZURE_MISTRAL_ENDPOINT''
            \<and> \<not> truthy (azure_endpoint self) \<and> \<not> truthy (env ''AZURE_MISTRAL_ENDPOINT'')
            \<and> s = self)
       \<or> ((\<exists>x. e = HttpxError x \<and> client_failure hx env self = Some x)
            \<and> client self = None
            \<and> s = self\<lparr> endpoint := (if truthy (azure_endpoint self) then azure_endpoint self
                                         else env ''AZURE_MISTRAL_ENDPOINT'') \<rparr>)
       \<or> ((\<exists>y. e = HttpxError y \<and> async_failure hx env self = Some y)
            \<and> client_failure hx env self = None
            \<and> endpoint s = (if truthy (azure_endpoint self) then azure_endpoint self
                             else env ''AZURE_MISTRAL_ENDPOINT'')
            \<and> client s \<noteq> None \<and> async_client self = None \<and> async_client s = None
            \<and> (client self \<noteq> None \<longrightarrow> client s = client self)
            \<and> s\<lparr> endpoint := endpoint self, client := client self \<rparr> = self)
       \<or> ((e = ValueError ''temperature must be in the range [0.0, 1.0]''
              \<and> (\<exists>t. temperature self = Some t \<and> outside_unit_interval t)
            \<or> e = ValueError ''top_p must be in the range [0.0, 1.0]''
              \<and> (\<exists>t. top_p self = Some t \<and> outside_unit_interval t))
            \<and> client_failure hx env self = None \<and> async_failure hx env self = None
            \<and> truthy (endpoint s)
            \<and> endpoint s = (if truthy (azure_endpoint self) then azure_endpoint self
                             else env ''AZURE_MISTRAL_ENDPOINT'')
            \<and> client s \<noteq> None \<and> async_client s \<noteq> None
            \<and> (client self \<noteq> None \<longrightarrow> client s = client self)
            \<and> (async_client self \<noteq> None \<longrightarrow> async_client s = async_client self)
            \<and> s\<lparr> endpoint := endpoint self, client := client self,
                  async_client := async_client self \<rparr> = self))
       \<and> (self = populate env args \<longrightarrow>
            AzureChatMistralAI_init hx env args = Inl e
            \<and> aborted_object hx env args = Some s)"
proof
  show "self = populate env args \<longrightarrow>
            AzureChatMistralAI_init hx env args = Inl e
            \<and> aborted_object hx env args = Some s"
    using assms by (auto simp: AzureChatMistralAI_init_def aborted_object_def)
next
  let ?resolved = "if truthy (azure_endpoint self) then azure_endpoint self
                   else env ''AZURE_MISTRAL_ENDPOINT''"
  let ?A = "e = ValueError ''Must set AZURE_MISTRAL_ENDPOINT''
            \<and> \<not> truthy (azure_endpoint self) \<and> \<not> truthy (env ''AZURE_MISTRAL_ENDPOINT'')
            \<and> s = self"
  let ?B = "(\<exists>x. e = HttpxError x \<and> client_failure hx env self = Some x)
            \<and> client self = None
            \<and> s = self\<lparr> endpoint := ?resolved \<rparr>"
  let ?C = "(\<exists>y. e = HttpxError y \<and> async_failure hx env self = Some y)
            \<and> client_failure hx env self = None
            \<and> endpoint s = ?resolved
            \<and> client s \<noteq> None \<and> async_client self = None \<and> async_client s = None
            \<and> (client self \<noteq> None \<longrightarrow> client s = client self)
            \<and> s\<lparr> endpoint := endpoint self, client := client self \<rparr> = self"
  let ?D = "(e = ValueError ''temperature must be in the range [0.0, 1.0]''
              \<and> (\<exists>t. temperature self = Some t \<and> outside_unit_interval t)
            \<or> e = ValueError ''top_p must be in the range [0.0, 1.0]''
              \<and> (\<exists>t. top_p self = Some t \<and> outside_unit_interval t))
            \<and> client_failure hx env self = None \<and> async_failure hx env self = None
            \<and> truthy (endpoint s)
            \<and> endpoint s = ?resolved
            \<and> client s \<noteq> None \<and> async_client s \<noteq> None
            \<and> (client self \<noteq> None \<longrightarrow> client s = client self)
            \<and> (async_client self \<noteq> None \<longrightarrow> async_client s = async_client self)
            \<and> s\<lparr> endpoint := endpoint self, client := client self,
                  async_client := async_client self \<rparr> = self"
  show "?A \<or> ?B \<or> ?C \<or> ?D"
  proof (cases "base_url_str env self")
    case None
    with assms have "e = ValueError ''Must set AZURE_MISTRAL_ENDPOINT''" "s = self"
      by (simp_all add: validate_environment_None)
    moreover from None
    have "\<not> truthy (azure_endpoint self)" "\<not> truthy (env ''AZURE_MISTRAL_ENDPOINT'')"
      using resolvable_iff [of self env] by auto
    ultimately have ?A by simp
    then show ?thesis ..
  next
    case (Some url)
    from Some have res: "?resolved = Some url"
      by (auto simp: base_url_str_cases split: if_splits)
    have nonempty: "url \<noteq> []"
      by (rule base_url_str_Some [OF Some])
    show ?thesis
    proof (cases "client_failure hx env self")
      case cf: (Some x)
      from validate_environment_Inl [OF Some assms, of x] cf
      have "e = HttpxError x" "s = self\<lparr> endpoint := Some url \<rparr>"
        by simp_all
      moreover from cf have "client self = None"
        by (rule client_failure_Some)
      ultimately have ?B
        unfolding res using cf by simp
      then show ?thesis by blast
    next
      case cf: None
      show ?thesis
      proof (cases "async_failure hx env self")
        case af: (Some y)
        from validate_environment_Inl [OF Some assms, of _ y] cf af
        have e: "e = HttpxError y"
          and s: "s = self\<lparr> endpoint := Some url,
                        client := (case client self of
                                     None \<Rightarrow> Some (Client url
                                                     (client_headers_for (api_key_str self))
                                                     (timeout self))
                                   | Some c \<Rightarrow> Some c) \<rparr>"
          by simp_all
        from af have none: "async_client self = None"
          by (rule async_failure_Some)
        have "endpoint s = Some url" "async_client s = None"
          by (simp_all add: s none)
        moreover have "client s \<noteq> None" "client self \<noteq> None \<longrightarrow> client s = client self"
          by (auto simp: s split: option.splits)
        moreover have "s\<lparr> endpoint := endpoint self, client := client self \<rparr> = self"
          by (simp add: s)
        ultimately have ?C
          unfolding res using e af cf none by simp
        then show ?thesis by blast
      next
        case af: None
        from validate_environment_Inl [OF Some assms] cf af
        have e: "e = ValueError ''temperature must be in the range [0.0, 1.0]''
                   \<and> out_of_range (temperature self)
                 \<or> e = ValueError ''top_p must be in the range [0.0, 1.0]''
                   \<and> out_of_range (top_p self)"
          and s: "s = self\<lparr> endpoint := Some url,
                        client := (case client self of
                                     None \<Rightarrow> Some (Client url
                                                     (client_headers_for (api_key_str self))
                                                     (timeout self))
                                   | Some c \<Rightarrow> Some c),
                        async_client := (case async_client self of
                                     None \<Rightarrow> Some (AsyncClient url
                                                     (client_headers_for (api_key_str self))
                                                     (timeout self))
                                   | Some a \<Rightarrow> Some a) \<rparr>"
          by simp_all
        have "endpoint s = Some url" "truthy (endpoint s)"
          using nonempty by (simp_all add: s)
        moreover have "client s \<noteq> None" "client self \<noteq> None \<longrightarrow> client s = client self"
          by (auto simp: s split: option.splits)
        moreover have "async_client s \<noteq> None"
          "async_client self \<noteq> None \<longrightarrow> async_client s = async_client self"
          by (auto simp: s split: option.splits)
        moreover have "s\<lparr> endpoint := endpoint self, client := client self,
                           async_client := async_client self \<rparr> = self"
          by (simp add: s)
        moreover from e
        have "e = ValueError ''temperature must be in the range [0.0, 1.0]''
              \<and> (\<exists>t. temperature self = Some t \<and> outside_unit_interval t)
            \<or> e = ValueError ''top_p must be in the range [0.0, 1.0]''
              \<and> (\<exists>t. top_p self = Some t \<and> outside_unit_interval t)"
          unfolding out_of_range_iff .
        ultimately have ?D
          unfolding res using cf af by simp
        then show ?thesis by blast
      qed
    qed
  qed
qed

theorem validate_environment_error_state_witness:
  "AzureChatMistralAI_init ascii_httpx Map.empty hot_args
     = Inl (ValueError ''temperature must be in the range [0.0, 1.0]'')
   \<and> AzureChatMistralAI_init ascii_httpx Map.empty accent_key_args
       = Inl (HttpxError ''UnicodeEncodeError'')
   \<and> aborted_object ascii_httpx Map.empty accent_key_args
       = Some ((populate Map.empty accent_key_args)
                 \<lparr> endpoint := Some ''https://azure.example/'' \<rparr>)
   \<and> validate_environment ascii_httpx Map.empty (populate Map.empty env_only_args)
       = Inl (ValueError ''Must set AZURE_MISTRAL_ENDPOINT'', populate Map.empty env_only_args)
   \<and> AzureChatMistralAI_init ascii_httpx Map.empty env_only_args
       = Inl (ValueError ''Must set AZURE_MISTRAL_ENDPOINT'')"
proof -
  have late: "validate_environment ascii_httpx Map.empty (populate Map.empty hot_args)
     = Inl (ValueError ''temperature must be in the range [0.0, 1.0]'',
            (populate Map.empty hot_args)
                \<lparr> endpoint := Some ''https://azure.example/'',
                  client := Some (Client ''https://azure.example/''
                                    (client_headers_for (Some ''k'')) 120),
                  async_client := Some (AsyncClient ''https://azure.example/''
                                    (client_headers_for (Some ''k'')) 120) \<rparr>)"
    by (simp add: validate_environment_def populate_def base_url_str_def py_or_def
          api_key_str_def out_of_range_def new_Client_def new_AsyncClient_def
          ascii_httpx_def encode_failure_ascii Let_def hot_args_def example_inherited_def)
  have middle: "validate_environment ascii_httpx Map.empty (populate Map.empty accent_key_args)
     = Inl (HttpxError ''UnicodeEncodeError'',
            (populate Map.empty accent_key_args)
                 \<lparr> endpoint := Some ''https://azure.example/'' \<rparr>)"
    by (simp add: validate_environment_def populate_def base_url_str_def py_or_def
          api_key_str_def new_Client_def ascii_httpx_def encode_failure_def
          client_headers_for_def Let_def accent_key_args_def example_inherited_def)
  have early: "validate_environment ascii_httpx Map.empty (populate Map.empty env_only_args)
     = Inl (ValueError ''Must set AZURE_MISTRAL_ENDPOINT'', populate Map.empty env_only_args)"
    by (simp add: validate_environment_def populate_def base_url_str_def py_or_def
          from_env_def Let_def env_only_args_def)
  from validate_environment_error_state [OF late, of hot_args]
  have "AzureChatMistralAI_init ascii_httpx Map.empty hot_args
     = Inl (ValueError ''temperature must be in the range [0.0, 1.0]'')"
    by simp
  moreover from validate_environment_error_state [OF middle, of accent_key_args]
  have "AzureChatMistralAI_init ascii_httpx Map.empty accent_key_args
       = Inl (HttpxError ''UnicodeEncodeError'')
   \<and> aborted_object ascii_httpx Map.empty accent_key_args
       = Some ((populate Map.empty accent_key_args)
                 \<lparr> endpoint := Some ''https://azure.example/'' \<rparr>)"
    by simp
  moreover from validate_environment_error_state [OF early, of env_only_args]
  have "AzureChatMistralAI_init ascii_httpx Map.empty env_only_args
       = Inl (ValueError ''Must set AZURE_MISTRAL_ENDPOINT'')"
    by simp
  ultimately show ?thesis using early by simp
qed

subsection \<open>A missing key\<close>




end
